theory Spec2Isabelle
  imports Complex_Main "HOL-Library.Sublist"
begin

section \<open>Python values and strings\<close>

text \<open>
  Strings are \<open>char list\<close>. The model is exact for ASCII text: \<open>str.lower()\<close>
  maps \<open>A..Z\<close> to \<open>a..z\<close> (it sets the bit of value 32) and leaves every other
  character alone. Floats (sentiment, confidence, clock readings) are modelled as
  reals.
\<close>

fun lower_char :: "char \<Rightarrow> char" where
  "lower_char (Char b0 b1 b2 b3 b4 b5 b6 b7) =
     (let n = (of_char (Char b0 b1 b2 b3 b4 b5 b6 b7) :: nat)
      in if 65 \<le> n \<and> n \<le> 90 then Char b0 b1 b2 b3 b4 True b6 b7
         else Char b0 b1 b2 b3 b4 b5 b6 b7)"

definition lower :: "string \<Rightarrow> string" where
  "lower s = map lower_char s"

text \<open>\<open>sub in s\<close> on Python strings: \<open>sub\<close> occurs as a contiguous substring.\<close>

fun str_in :: "string \<Rightarrow> string \<Rightarrow> bool" where
  "str_in sub [] = (sub = [])"
| "str_in sub (c # cs) = (prefix sub (c # cs) \<or> str_in sub cs)"

text \<open>\<open>any(w in s for w in ws)\<close>.\<close>

definition any_in :: "string list \<Rightarrow> string \<Rightarrow> bool" where
  "any_in ws s = list_ex (\<lambda>w. str_in w s) ws"

text \<open>\<open>if b: points.append(x)\<close>.\<close>

definition append_if :: "bool \<Rightarrow> 'a \<Rightarrow> 'a list \<Rightarrow> 'a list" where
  "append_if b x xs = (if b then xs @ [x] else xs)"

text \<open>
  Values of Python's \<open>Any\<close>, as they occur in \<open>customer_info\<close> and in the context
  dictionary. Exceptions are values of \<open>py_error\<close>; a function that may raise returns
  \<open>py_error + 'a\<close>.
\<close>

datatype pyval = PyStr string | PyInt int | PyBool bool | PyNone

datatype py_error = AttributeError | IndexError | TypeError

section \<open>ticket\_analysis\_agent.py\<close>

datatype TicketCategory = TECHNICAL | BILLING | FEATURE | ACCESS

fun category_value :: "TicketCategory \<Rightarrow> string" where
  "category_value TECHNICAL = ''technical''"
| "category_value BILLING = ''billing''"
| "category_value FEATURE = ''feature''"
| "category_value ACCESS = ''access''"

datatype Priority = LOW | MEDIUM | HIGH | URGENT

fun priority_value :: "Priority \<Rightarrow> int" where
  "priority_value LOW = 1"
| "priority_value MEDIUM = 2"
| "priority_value HIGH = 3"
| "priority_value URGENT = 4"

record TicketAnalysis =
  category :: TicketCategory
  priority :: Priority
  key_points :: "string list"
  required_expertise :: "string list"
  sentiment :: real
  urgency_indicators :: "string list"
  business_impact :: string
  suggested_response_type :: string

text \<open>The two attributes set in \<open>TicketAnalysisAgent.__init__\<close>.\<close>

definition urgency_keywords :: "string list" where
  "urgency_keywords =
     [''urgent'', ''asap'', ''immediately'', ''emergency'', ''critical'',
      ''as soon as possible'', ''right away'', ''time sensitive'']"

definition vip_roles :: "string list" where
  "vip_roles =
     [''ceo'', ''cfo'', ''cto'', ''director'', ''vp'', ''vice president'',
      ''president'', ''head'', ''chief'', ''manager'']"

subsection \<open>Categorisation\<close>

definition access_words :: "string list" where
  "access_words = [''access'', ''login'', ''permission'', ''403'', ''dashboard'']"

definition billing_words :: "string list" where
  "billing_words =
     [''bill'', ''invoice'', ''payment'', ''charge'', ''pricing'', ''cost'', ''subscription'']"

definition feature_words :: "string list" where
  "feature_words =
     [''feature'', ''enhancement'', ''improvement'', ''add'', ''suggestion'', ''roadmap'']"

text \<open>
  The \<open>if/elif/else\<close> chain of \<open>analyze_ticket\<close> (lines 83 to 101): the category,
  the expertise tags and the suggested response type chosen together.
\<close>

definition categorize :: "string \<Rightarrow> TicketCategory \<times> string list \<times> string" where
  "categorize content =
     (if any_in access_words content then
        (ACCESS, [''access control'', ''permissions'', ''authentication''], ''access_issue'')
      else if any_in billing_words content then
        (BILLING, [''billing'', ''accounting'', ''finance''], ''billing_inquiry'')
      else if any_in feature_words content then
        (FEATURE, [''product management'', ''development''], ''feature_request'')
      else
        (TECHNICAL, [''technical support'', ''troubleshooting''], ''technical_issue''))"

subsection \<open>Key points\<close>

definition extract_access_key_points :: "string \<Rightarrow> string list" where
  "extract_access_key_points content =
     (let points = [];
          points = append_if (str_in ''dashboard'' content) ''Cannot access dashboard'' points;
          points = append_if (str_in ''403'' content) ''Receiving 403 error'' points;
          points = append_if (str_in ''password'' content) ''Password issue'' points;
          points = append_if (str_in ''login'' content) ''Login problem'' points;
          points = append_if (str_in ''permission'' content) ''Permission problem'' points;
          points = append_if (length points = 0) ''General access issue'' points
      in points)"

definition extract_billing_key_points :: "string \<Rightarrow> string list" where
  "extract_billing_key_points content =
     (let points = [];
          points = append_if (str_in ''invoice'' content) ''Invoice question'' points;
          points = append_if (str_in ''payment'' content) ''Payment issue'' points;
          points = append_if (str_in ''charge'' content) ''Charge inquiry'' points;
          points = append_if (str_in ''refund'' content) ''Refund request'' points;
          points = append_if (str_in ''cycle'' content \<or> str_in ''pro-rat'' content)
                     ''Billing cycle question'' points;
          points = append_if (length points = 0) ''General billing question'' points
      in points)"

definition extract_feature_key_points :: "string \<Rightarrow> string list" where
  "extract_feature_key_points content =
     (let points = [];
          points = append_if (str_in ''request'' content) ''Feature request'' points;
          points = append_if (str_in ''suggest'' content) ''Feature suggestion'' points;
          points = append_if (str_in ''add'' content) ''Addition request'' points;
          points = append_if (str_in ''improve'' content) ''Improvement suggestion'' points;
          points = append_if (str_in ''roadmap'' content) ''Roadmap inquiry'' points;
          points = append_if (length points = 0) ''General feature request'' points
      in points)"

definition extract_technical_key_points :: "string \<Rightarrow> string list" where
  "extract_technical_key_points content =
     (let points = [];
          points = append_if (str_in ''error'' content) ''Error reported'' points;
          points = append_if (str_in ''crash'' content) ''System crash'' points;
          points = append_if (str_in ''bug'' content) ''Bug report'' points;
          points = append_if (str_in ''slow'' content) ''Performance issue'' points;
          points = append_if (str_in ''not working'' content) ''Functionality issue'' points;
          points = append_if (length points = 0) ''Technical issue'' points
      in points)"

definition extract_key_points :: "TicketCategory \<Rightarrow> string \<Rightarrow> string list" where
  "extract_key_points cat content =
     (if cat = ACCESS then extract_access_key_points content
      else if cat = BILLING then extract_billing_key_points content
      else if cat = FEATURE then extract_feature_key_points content
      else extract_technical_key_points content)"

subsection \<open>Urgency, business impact, sentiment\<close>

text \<open>\<open>s.count(c)\<close> for a one-character string.\<close>

definition count_char :: "char \<Rightarrow> string \<Rightarrow> nat" where
  "count_char c s = length (filter (\<lambda>x. x = c) s)"

definition extract_urgency_indicators :: "string \<Rightarrow> string list" where
  "extract_urgency_indicators content =
     (let indicators = filter (\<lambda>keyword. str_in keyword content) urgency_keywords;
          exclamations = count_char (CHR ''!'') content;
          indicators = append_if (exclamations \<ge> 3) ''multiple exclamation marks'' indicators;
          indicators = append_if (str_in ''today'' content \<or> str_in ''now'' content
                                  \<or> str_in ''immediately'' content)
                         ''immediate timeframe'' indicators
      in indicators)"

definition assess_business_impact :: "string \<Rightarrow> string" where
  "assess_business_impact content =
     (if str_in ''revenue'' content \<or> str_in ''sales'' content then ''Revenue impact''
      else if str_in ''customer'' content
              \<and> (str_in ''cannot'' content \<or> str_in ''unable'' content) then ''Customer impact''
      else if str_in ''production'' content then ''Production impact''
      else if str_in ''deadline'' content then ''Deadline impact''
      else if str_in ''payroll'' content then ''Payroll processing impact''
      else '''')"

definition negative_words :: "string list" where
  "negative_words =
     [''cannot'', ''issue'', ''problem'', ''error'', ''fail'', ''bug'', ''broken'',
      ''urgent'', ''bad'', ''wrong'']"

definition positive_words :: "string list" where
  "positive_words = [''thank'', ''please'', ''appreciate'', ''good'', ''great'', ''working'']"

text \<open>\<open>sum(1 for word in words if word in content)\<close>.\<close>

definition count_in :: "string list \<Rightarrow> string \<Rightarrow> int" where
  "count_in ws content = int (length (filter (\<lambda>word. str_in word content) ws))"

definition analyze_sentiment :: "string \<Rightarrow> real" where
  "analyze_sentiment content =
     (let negative_count = count_in negative_words content;
          positive_count = count_in positive_words content;
          total = negative_count + positive_count
      in if total = 0 then 0.0
         else real_of_int (positive_count - negative_count) / real_of_int total)"

subsection \<open>analyze\_ticket\<close>

text \<open>\<open>if priority.value < level.value: priority = level\<close>.\<close>

definition raise_to :: "Priority \<Rightarrow> Priority \<Rightarrow> Priority" where
  "raise_to level p = (if priority_value p < priority_value level then level else p)"

text \<open>
  The VIP check (lines 127 to 131). \<open>customer_info\<close> is a dictionary, kept as an
  association list. \<open>customer_info["role"].lower()\<close> raises AttributeError when the
  role is not a string.
\<close>

definition vip_check ::
  "(string \<times> pyval) list \<Rightarrow> Priority \<Rightarrow> py_error + Priority" where
  "vip_check customer_info p =
     (if customer_info \<noteq> [] \<and> map_of customer_info ''role'' \<noteq> None then
        (case the (map_of customer_info ''role'') of
           PyStr role \<Rightarrow>
             (let customer_role = lower role
              in if list_ex (\<lambda>r. str_in r customer_role) vip_roles
                 then Inr (raise_to HIGH p) else Inr p)
         | _ \<Rightarrow> Inl AttributeError)
      else Inr p)"

definition enterprise_check :: "(string \<times> pyval) list \<Rightarrow> Priority \<Rightarrow> Priority" where
  "enterprise_check customer_info p =
     (if customer_info \<noteq> [] \<and> map_of customer_info ''plan'' \<noteq> None
         \<and> the (map_of customer_info ''plan'') = PyStr ''Enterprise''
      then raise_to MEDIUM p else p)"

text \<open>
  \<open>TicketAnalysisAgent.analyze_ticket\<close>. The subject extracted at lines 76 and 77 is
  never used afterwards and is left out.
\<close>

definition TicketAnalysisAgent_analyze_ticket ::
  "string \<Rightarrow> (string \<times> pyval) list \<Rightarrow> py_error + TicketAnalysis" where
  "TicketAnalysisAgent_analyze_ticket ticket_content customer_info =
     (let priority0 = MEDIUM;
          content = lower ticket_content;
          (cat, expertise, response_type) = categorize content;
          points = extract_key_points cat content;
          indicators = extract_urgency_indicators content;
          priority1 = (if indicators \<noteq> [] then raise_to HIGH priority0 else priority0);
          impact0 = assess_business_impact content;
          critical = (str_in ''payroll'' content \<or> str_in ''revenue'' content
                      \<or> str_in ''cannot work'' content);
          priority2 = (if critical then URGENT else priority1);
          impact = (if critical then ''Critical business function impacted'' else impact0)
      in case vip_check customer_info priority2 of
           Inl e \<Rightarrow> Inl e
         | Inr priority3 \<Rightarrow>
             Inr \<lparr> category = cat,
                   priority = enterprise_check customer_info priority3,
                   key_points = points,
                   required_expertise = expertise,
                   sentiment = analyze_sentiment content,
                   urgency_indicators = indicators,
                   business_impact = impact,
                   suggested_response_type = response_type \<rparr>)"

section \<open>response\_agent.py\<close>

record ResponseSuggestion =
  response_text :: string
  confidence_score :: real
  requires_approval :: bool
  suggested_actions :: "string list"

subsection \<open>Template selection\<close>

text \<open>
  Lines 38 to 45 of \<open>generate_response\<close>. The template dictionary is an association
  list in insertion order, so \<open>list(response_templates.keys())[0]\<close> is the key of
  its first entry; on an empty dictionary the index raises IndexError.
\<close>

definition select_template_key ::
  "TicketAnalysis \<Rightarrow> (string \<times> string) list \<Rightarrow> py_error + string" where
  "select_template_key ticket_analysis response_templates =
     (let template_key = suggested_response_type ticket_analysis
      in if map_of response_templates template_key = None then
           (if map_of response_templates (category_value (category ticket_analysis)) \<noteq> None
            then Inr (category_value (category ticket_analysis))
            else (case map fst response_templates of
                    [] \<Rightarrow> Inl IndexError
                  | k # _ \<Rightarrow> Inr k))
         else Inr template_key)"

subsection \<open>Template variables per category\<close>

text \<open>\<open>any(w in point.lower() for point in key_points)\<close>.\<close>

definition any_point_lower :: "string \<Rightarrow> string list \<Rightarrow> bool" where
  "any_point_lower w points = list_ex (\<lambda>point. str_in w (lower point)) points"

text \<open>
  \<open>str.replace(old, new)\<close>: the occurrences of \<open>old\<close> are replaced from left to
  right, without overlap; an empty \<open>old\<close> matches before every character and at
  the end.
\<close>

fun str_replace :: "string \<Rightarrow> string \<Rightarrow> string \<Rightarrow> string" where
  "str_replace old new [] = (if old = [] then new else [])"
| "str_replace old new (c # cs) =
     (if old = [] then new @ c # str_replace old new cs
      else if prefix old (c # cs) then new @ str_replace old new (drop (length old - 1) cs)
      else c # str_replace old new cs)"

definition resolution_steps_text :: string where
  "resolution_steps_text =
     ''Please try the following steps:\<newline>1. Clear your browser cache and cookies\<newline>2. Try accessing from an incognito/private window\<newline>3. Ensure you're using the correct admin credentials\<newline>\<newline>If these steps don't resolve the issue, our technical team will need to investigate your account permissions.''"

definition generate_access_response_vars :: "TicketAnalysis \<Rightarrow> (string \<rightharpoonup> pyval)" where
  "generate_access_response_vars ticket_analysis =
     (let points = key_points ticket_analysis;
          high = (priority_value (priority ticket_analysis) \<ge> 3)
      in [''feature'' \<mapsto> PyStr
            (if any_point_lower ''dashboard'' points then ''admin dashboard''
             else if any_point_lower ''login'' points then ''login system''
             else ''system''),
          ''diagnosis'' \<mapsto> PyStr
            (if list_ex (\<lambda>point. str_in ''403'' point) points then
               ''It appears you're encountering a 403 error, which typically indicates a permissions issue. This could be due to recent security updates or account changes.''
             else
               ''Based on your description, it appears to be an access control issue that might be related to your account permissions.''),
          ''resolution_steps'' \<mapsto> PyStr resolution_steps_text,
          ''priority_level'' \<mapsto> PyStr (if high then ''HIGH'' else ''MEDIUM''),
          ''eta'' \<mapsto> PyStr (if high then ''Today (within 2-3 hours)'' else ''Within 24 hours'')])"

definition billing_cycle_explanation :: string where
  "billing_cycle_explanation =
     ''Our system bills from the 15th of each month. When you sign up on a date other than the 15th, we pro-rate your first invoice for the partial period.\<newline>\<newline>For example, if you signed up on the 20th, your first invoice includes a pro-rated amount for the period from the 20th to the 14th of the following month. Subsequent invoices will cover the full period from the 15th to the 14th of the next month.''"

definition billing_default_explanation :: string where
  "billing_default_explanation =
     ''Our billing system processes payments on a monthly basis, with the billing cycle starting on the 15th of each month. Your plan charges are calculated based on your subscription level and any additional usage fees that may apply.''"

definition billing_next_steps :: string where
  "billing_next_steps =
     ''If you would like to:\<newline>1. Receive a detailed breakdown of your charges, we can provide that by email\<newline>2. Change your billing date to align with your signup date, we can arrange this for you\<newline>3. Discuss other billing options, please let us know your preferences''"

definition generate_billing_response_vars :: "TicketAnalysis \<Rightarrow> (string \<rightharpoonup> pyval)" where
  "generate_billing_response_vars ticket_analysis =
     (let points = key_points ticket_analysis;
          billing_topic =
            (if any_point_lower ''cycle'' points then ''billing cycle''
             else if any_point_lower ''invoice'' points then ''invoice''
             else if any_point_lower ''payment'' points then ''payment''
             else ''billing inquiry'')
      in [''billing_topic'' \<mapsto> PyStr billing_topic,
          ''explanation'' \<mapsto> PyStr
            (if billing_topic = ''billing cycle'' then billing_cycle_explanation
             else billing_default_explanation),
          ''next_steps'' \<mapsto> PyStr billing_next_steps])"

definition feature_timeline :: string where
  "feature_timeline =
     ''While I can't provide a specific timeline for implementation at this moment, I've logged your request in our product management system. Our product team will review it during our next planning cycle.\<newline>\<newline>We'll be sure to notify you if this feature is added in a future update.''"

definition generate_feature_response_vars :: "TicketAnalysis \<Rightarrow> (string \<rightharpoonup> pyval)" where
  "generate_feature_response_vars ticket_analysis =
     (let feature_points =
            filter (\<lambda>point. str_in ''feature'' (lower point) \<or> str_in ''request'' (lower point))
              (key_points ticket_analysis);
          feature_name =
            (case feature_points of
               point # _ \<Rightarrow>
                 str_replace ''Addition request: '' []
                   (str_replace ''Feature request: '' [] point)
             | [] \<Rightarrow> ''the requested functionality'')
      in [''feature_name'' \<mapsto> PyStr feature_name,
          ''feedback'' \<mapsto> PyStr
            (''Thank you for your suggestion about '' @ feature_name
             @ ''. We appreciate customer feedback as it helps us improve our product.\<newline>\<newline>We regularly review feature requests and prioritize them based on customer demand, alignment with our roadmap, and technical feasibility.''),
          ''timeline'' \<mapsto> PyStr feature_timeline])"

definition troubleshooting_text :: string where
  "troubleshooting_text =
     ''To help us resolve this issue efficiently, could you please provide the following information if you haven't already:\<newline>\<newline>1. The exact error message you're seeing (or a screenshot)\<newline>2. Which browser and operating system you're using\<newline>3. The steps you were taking when the issue occurred\<newline>4. Whether this is a new issue or has happened before''"

definition solution_text :: string where
  "solution_text =
     ''Once we have this information, our technical team will investigate the issue. In the meantime, you might try:\<newline>\<newline>1. Clearing your browser cache and cookies\<newline>2. Trying a different browser\<newline>3. Restarting your device\<newline>\<newline>These simple steps sometimes resolve technical issues without further intervention.''"

definition generate_technical_response_vars :: "TicketAnalysis \<Rightarrow> (string \<rightharpoonup> pyval)" where
  "generate_technical_response_vars ticket_analysis =
     (let points = key_points ticket_analysis
      in [''issue_description'' \<mapsto> PyStr
            (if any_point_lower ''error'' points then ''the error you encountered''
             else if any_point_lower ''crash'' points then ''the system crash''
             else if any_point_lower ''slow'' points then ''the performance issue''
             else ''the technical issue you reported''),
          ''troubleshooting'' \<mapsto> PyStr troubleshooting_text,
          ''solution'' \<mapsto> PyStr solution_text,
          ''priority_level'' \<mapsto> PyStr
            (if priority_value (priority ticket_analysis) \<ge> 3 then ''HIGH'' else ''STANDARD'')])"

subsection \<open>Filling a template\<close>

text \<open>
  \<open>re.findall(r'\{([^}]+)\}', template)\<close>: scanning from the left, a match starts at
  a \<open>{\<close> that is followed by a non-empty run of characters other than \<open>}\<close> and then
  a \<open>}\<close>; the run is the name returned, and the scan goes on after the \<open>}\<close>. The
  run taken by \<open>[^}]+\<close> is the longest one, and giving characters back never helps,
  since the character after a shorter run is not \<open>}\<close>.
\<close>

definition not_close :: "char \<Rightarrow> bool" where
  "not_close x = (x \<noteq> CHR ''}'')"

function findall_placeholders :: "string \<Rightarrow> string list" where
  "findall_placeholders [] = []"
| "findall_placeholders (c # cs) =
     (if c = CHR ''{'' \<and> takeWhile not_close cs \<noteq> [] \<and> dropWhile not_close cs \<noteq> []
      then takeWhile not_close cs # findall_placeholders (tl (dropWhile not_close cs))
      else findall_placeholders cs)"
  by pat_completeness auto
termination
proof (relation "measure length")
  fix c :: char and cs :: string
  show "(tl (dropWhile not_close cs), c # cs) \<in> measure length"
    using length_dropWhile_le [of not_close cs] by simp
qed simp_all

definition braced :: "string \<Rightarrow> string" where
  "braced placeholder = ''{'' @ placeholder @ ''}''"

text \<open>
  The loop of \<open>_fill_template\<close>. \<open>str.replace\<close> raises TypeError when the value is
  not a string.
\<close>

fun fill_loop :: "(string \<rightharpoonup> pyval) \<Rightarrow> string list \<Rightarrow> string \<Rightarrow> py_error + string" where
  "fill_loop variables [] filled_template = Inr filled_template"
| "fill_loop variables (placeholder # rest) filled_template =
     (case variables placeholder of
        Some (PyStr v) \<Rightarrow>
          fill_loop variables rest (str_replace (braced placeholder) v filled_template)
      | Some _ \<Rightarrow> Inl TypeError
      | None \<Rightarrow>
          fill_loop variables rest
            (str_replace (braced placeholder) (''['' @ placeholder @ '']'') filled_template))"

definition fill_template :: "string \<Rightarrow> (string \<rightharpoonup> pyval) \<Rightarrow> py_error + string" where
  "fill_template template variables =
     fill_loop variables (findall_placeholders template) template"

subsection \<open>generate\_response\<close>

definition category_vars :: "TicketAnalysis \<Rightarrow> (string \<rightharpoonup> pyval)" where
  "category_vars ticket_analysis =
     (if category_value (category ticket_analysis) = ''access''
        then generate_access_response_vars ticket_analysis
      else if category_value (category ticket_analysis) = ''billing''
        then generate_billing_response_vars ticket_analysis
      else if category_value (category ticket_analysis) = ''feature''
        then generate_feature_response_vars ticket_analysis
      else generate_technical_response_vars ticket_analysis)"

definition category_actions :: "TicketAnalysis \<Rightarrow> string list" where
  "category_actions ticket_analysis =
     (if category_value (category ticket_analysis) = ''access'' then
        append_if (priority_value (priority ticket_analysis) \<ge> 3)
          ''Escalate to access control team if not resolved within 1 hour''
          [''Verify user permissions in the admin system'',
           ''Check for recent security updates that might affect access'']
      else if category_value (category ticket_analysis) = ''billing'' then
        [''Verify billing records'',
         ''Consider offering billing adjustments if appropriate'']
      else if category_value (category ticket_analysis) = ''feature'' then
        [''Log feature request in product backlog'',
         ''Check with product team about similar planned features'']
      else
        append_if (priority_value (priority ticket_analysis) \<ge> 3)
          ''Escalate to technical specialists if not resolved within 2 hours''
          [''Document the issue in internal knowledge base'',
           ''Check for similar recent technical issues''])"

definition ResponseAgent_generate_response ::
  "TicketAnalysis \<Rightarrow> (string \<times> string) list \<Rightarrow> (string \<rightharpoonup> pyval)
     \<Rightarrow> py_error + ResponseSuggestion" where
  "ResponseAgent_generate_response ticket_analysis response_templates context =
     (case select_template_key ticket_analysis response_templates of
        Inl e \<Rightarrow> Inl e
      | Inr template_key \<Rightarrow>
          (let template = the (map_of response_templates template_key);
               confidence0 = (0.8 :: real);
               customer_name =
                 (case context ''customer_name'' of Some v \<Rightarrow> v | None \<Rightarrow> PyStr ''Customer'');
               response_vars = [''name'' \<mapsto> customer_name] ++ category_vars ticket_analysis;
               actions0 = category_actions ticket_analysis;
               urgent = (priority_value (priority ticket_analysis) = 4);
               actions1 = append_if urgent ''Supervisory review required due to priority'' actions0;
               confidence1 =
                 (if length (key_points ticket_analysis) \<le> 1 then confidence0 - 0.2
                  else confidence0);
               negative = (sentiment ticket_analysis < - 0.5);
               confidence2 = (if negative then confidence1 - 0.1 else confidence1);
               actions2 =
                 append_if negative ''Follow up personally due to customer sentiment'' actions1
           in case fill_template template response_vars of
                Inl e \<Rightarrow> Inl e
              | Inr text \<Rightarrow>
                  Inr \<lparr> response_text = text,
                        confidence_score = max 0.1 (min confidence2 1.0),
                        requires_approval = urgent,
                        suggested_actions = actions2 \<rparr>))"

section \<open>ticket\_processor.py\<close>

record SupportTicket =
  tid :: string
  subject :: string
  content :: string
  customer_info :: "(string \<times> pyval) list"

record TicketResolution =
  ticket_id :: string
  analysis :: "TicketAnalysis option"
  response :: "ResponseSuggestion option"
  status :: string
  processing_time :: real
  error :: "string option"

subsection \<open>Context\<close>

text \<open>
  Whitespace as \<open>\s\<close> and \<open>str.strip()\<close> see it on ASCII text: tab, line feed,
  vertical tab, form feed, carriage return, the four separators 28 to 31, and space.
\<close>

definition is_space :: "char \<Rightarrow> bool" where
  "is_space c = (let n = (of_char c :: nat) in (9 \<le> n \<and> n \<le> 13) \<or> (28 \<le> n \<and> n \<le> 32))"

definition strip :: "string \<Rightarrow> string" where
  "strip s = rev (dropWhile is_space (rev (dropWhile is_space s)))"

definition signature_words :: "string list" where
  "signature_words = [''Regards'', ''Thanks'', ''Best regards'', ''Sincerely'']"

text \<open>
  \<open>re.search(r"(?:Regards|Thanks|Best regards|Sincerely),?\s*(.*?)(?:\n|$)", content)\<close>.
  Once one of the four words is found the rest of the pattern always matches: the
  optional comma and the whitespace are taken greedily, and the lazy group stops at
  the first line feed or at the end of the text. So the match starts at the leftmost
  position where a word occurs, and group 1 is the text from the end of the
  whitespace up to the line feed. \<open>after_signature\<close> returns what follows the word.
\<close>

fun after_signature :: "string \<Rightarrow> string option" where
  "after_signature [] = None"
| "after_signature (c # cs) =
     (case filter (\<lambda>w. prefix w (c # cs)) signature_words of
        w # _ \<Rightarrow> Some (drop (length w) (c # cs))
      | [] \<Rightarrow> after_signature cs)"

definition signature_group :: "string \<Rightarrow> string" where
  "signature_group rest =
     (let rest = (case rest of c # cs \<Rightarrow> (if c = CHR '','' then cs else c # cs) | [] \<Rightarrow> []);
          rest = dropWhile is_space rest
      in takeWhile (\<lambda>c. c \<noteq> CHR ''\<newline>'') rest)"

definition get_default :: "(string \<times> pyval) list \<Rightarrow> string \<Rightarrow> pyval \<Rightarrow> pyval" where
  "get_default d k dflt = (case map_of d k of Some v \<Rightarrow> v | None \<Rightarrow> dflt)"

definition build_context :: "SupportTicket \<Rightarrow> (string \<rightharpoonup> pyval)" where
  "build_context ticket =
     (let customer_name =
            (case after_signature (content ticket) of
               Some rest \<Rightarrow> strip (signature_group rest)
             | None \<Rightarrow> ''Customer'')
      in [''ticket_id'' \<mapsto> PyStr (tid ticket),
          ''ticket_subject'' \<mapsto> PyStr (subject ticket),
          ''customer_name'' \<mapsto> PyStr customer_name,
          ''customer_role'' \<mapsto> get_default (customer_info ticket) ''role'' (PyStr ''Unknown''),
          ''customer_plan'' \<mapsto> get_default (customer_info ticket) ''plan'' (PyStr ''Unknown''),
          ''company_size'' \<mapsto>
             get_default (customer_info ticket) ''company_size'' (PyStr ''Unknown'')])"

subsection \<open>The two stages, each inside its own try/except\<close>

definition TicketProcessor_analyze_ticket :: "SupportTicket \<Rightarrow> TicketAnalysis option" where
  "TicketProcessor_analyze_ticket ticket =
     (case TicketAnalysisAgent_analyze_ticket (content ticket) (customer_info ticket) of
        Inr a \<Rightarrow> Some a
      | Inl e \<Rightarrow> None)"

definition TicketProcessor_generate_response ::
  "(string \<times> string) list \<Rightarrow> TicketAnalysis \<Rightarrow> (string \<rightharpoonup> pyval)
     \<Rightarrow> ResponseSuggestion option" where
  "TicketProcessor_generate_response response_templates a context =
     (case ResponseAgent_generate_response a response_templates context of
        Inr r \<Rightarrow> Some r
      | Inl e \<Rightarrow> None)"

subsection \<open>process\_ticket\<close>

text \<open>
  \<open>start_time\<close> and \<open>end_time\<close> are the two readings of \<open>time.time()\<close>, at entry
  and in the \<open>finally\<close> block, which runs on the two early returns as well. With a
  ticket of strings, nothing in the \<open>try\<close> body outside the two stages can raise
  (\<open>re.search\<close> and \<open>dict.get\<close> are total on them), and each stage catches its own
  exceptions and returns None; the handler of line 99 is therefore never entered and
  has no branch here.
\<close>

definition process_ticket ::
  "real \<Rightarrow> real \<Rightarrow> (string \<times> string) list \<Rightarrow> SupportTicket \<Rightarrow> TicketResolution" where
  "process_ticket start_time end_time response_templates ticket =
     (let resolution = \<lparr> ticket_id = tid ticket, analysis = None, response = None,
                          status = ''pending'', processing_time = 0.0, error = None \<rparr>;
          context = build_context ticket;
          a = TicketProcessor_analyze_ticket ticket;
          resolution = resolution \<lparr> analysis := a \<rparr>;
          resolution =
            (case a of
               None \<Rightarrow> resolution \<lparr> status := ''error'', error := Some ''Analysis failed'' \<rparr>
             | Some an \<Rightarrow>
                 (let r = TicketProcessor_generate_response response_templates an context;
                      resolution = resolution \<lparr> response := r \<rparr>
                  in case r of
                       None \<Rightarrow>
                         resolution \<lparr> status := ''error'',
                                      error := Some ''Response generation failed'' \<rparr>
                     | Some _ \<Rightarrow> resolution \<lparr> status := ''resolved'' \<rparr>))
      in resolution \<lparr> processing_time := end_time - start_time \<rparr>)"

section \<open>helpers.py\<close>

subsection \<open>Regular expressions\<close>

text \<open>
  The fragment of Python's \<open>re\<close> that the patterns here use: literals,
  sequences, alternation, an optional group, and greedy repetition of a character
  class (\<open>.\<close>, \<open>\d\<close>, \<open>\s\<close>, \<open>[^c]\<close>) between a lower and an optional upper
  bound. \<open>rmatch\<close> is the backtracking
  matcher: it matches a stack of expressions, one after the other, at the start of
  the text and returns what is left after the first match in Python's order of
  preference (the leftmost alternative first, the longest repetition first).
\<close>

datatype cclass = AnyChar | Digit | Space | NotChar char

fun in_class :: "cclass \<Rightarrow> char \<Rightarrow> bool" where
  "in_class AnyChar c = (c \<noteq> CHR ''\<newline>'')"
| "in_class Digit c = (let n = (of_char c :: nat) in 48 \<le> n \<and> n \<le> 57)"
| "in_class Space c = is_space c"
| "in_class (NotChar d) c = (c \<noteq> d)"

datatype rx =
    Lit string
  | Rep cclass nat "nat option"
  | Seq "rx list"
  | Alt "rx list"
  | Opt rx

fun weight :: "rx \<Rightarrow> nat" where
  "weight (Lit l) = 1"
| "weight (Rep c lo hi) = 1"
| "weight (Seq rs) = Suc (sum_list (map weight rs))"
| "weight (Alt rs) = Suc (sum_list (map weight rs))"
| "weight (Opt r) = Suc (weight r)"

function rmatch :: "rx list \<Rightarrow> string \<Rightarrow> string option" where
  "rmatch [] s = Some s"
| "rmatch (Lit l # k) s = (if prefix l s then rmatch k (drop (length l) s) else None)"
| "rmatch (Seq rs # k) s = rmatch (rs @ k) s"
| "rmatch (Alt [] # k) s = None"
| "rmatch (Alt (r # rs) # k) s =
     (case rmatch (r # k) s of Some rest \<Rightarrow> Some rest | None \<Rightarrow> rmatch (Alt rs # k) s)"
| "rmatch (Opt r # k) s =
     (case rmatch (r # k) s of Some rest \<Rightarrow> Some rest | None \<Rightarrow> rmatch k s)"
| "rmatch (Rep c lo hi # k) [] = (if lo = 0 then rmatch k [] else None)"
| "rmatch (Rep c lo hi # k) (x # xs) =
     (if in_class c x \<and> hi \<noteq> Some 0 then
        (case rmatch (Rep c (lo - 1) (map_option (\<lambda>h. h - 1) hi) # k) xs of
           Some rest \<Rightarrow> Some rest
         | None \<Rightarrow> (if lo = 0 then rmatch k (x # xs) else None))
      else if lo = 0 then rmatch k (x # xs) else None)"
  by pat_completeness auto
termination
proof -
  have w: "0 < weight r" for r
    by (cases r) simp_all
  show ?thesis
    by (relation "measures [\<lambda>(k, s). length s, \<lambda>(k, s). sum_list (map weight k)]")
       (auto simp: w)
qed

text \<open>
  \<open>re.findall(pattern, text)\<close> for a pattern without groups: the matches from left
  to right, without overlap, each the text consumed. After an empty match the scan
  moves on by one character; the three time patterns start with a literal and never
  match the empty text. \<open>re_search\<close> is True when \<open>re.search\<close> finds a match.
\<close>

function findall :: "rx \<Rightarrow> string \<Rightarrow> string list" where
  "findall r s =
     (case rmatch [r] s of
        Some rest \<Rightarrow>
          (if length rest < length s
           then take (length s - length rest) s # findall r rest
           else [] # (case s of [] \<Rightarrow> [] | _ # xs \<Rightarrow> findall r xs))
      | None \<Rightarrow> (case s of [] \<Rightarrow> [] | _ # xs \<Rightarrow> findall r xs))"
  by pat_completeness auto
termination
  by (relation "measure (\<lambda>(r, s). length s)") auto

declare findall.simps [simp del]

fun re_search :: "rx \<Rightarrow> string \<Rightarrow> bool" where
  "re_search r [] = (rmatch [r] [] \<noteq> None)"
| "re_search r (c # cs) = (rmatch [r] (c # cs) \<noteq> None \<or> re_search r cs)"

subsection \<open>identify\_urgency\_indicators\<close>

definition urgency_words :: "string list" where
  "urgency_words =
     [''urgent'', ''asap'', ''emergency'', ''immediately'', ''critical'',
      ''as soon as possible'', ''quickly'', ''right away'', ''urgent'',
      ''highest priority'', ''deadline'', ''sos'', ''time sensitive'']"

text \<open>
  \<open>by (?:today|tomorrow|this afternoon)\<close>, \<open>within \d+ (?:hour|minute|day)\<close> and
  \<open>need.*by.*\d{1,2}(?::\d{2})?\s*(?:am|pm|AM|PM)\<close>.
\<close>

definition time_patterns :: "rx list" where
  "time_patterns =
     [Seq [Lit ''by '', Alt [Lit ''today'', Lit ''tomorrow'', Lit ''this afternoon'']],
      Seq [Lit ''within '', Rep Digit 1 None, Lit '' '',
           Alt [Lit ''hour'', Lit ''minute'', Lit ''day'']],
      Seq [Lit ''need'', Rep AnyChar 0 None, Lit ''by'', Rep AnyChar 0 None,
           Rep Digit 1 (Some 2), Opt (Seq [Lit '':'', Rep Digit 2 (Some 2)]),
           Rep Space 0 None, Alt [Lit ''am'', Lit ''pm'', Lit ''AM'', Lit ''PM'']]]"

definition identify_urgency_indicators :: "string \<Rightarrow> string list" where
  "identify_urgency_indicators body =
     (let lower_text = lower body;
          indicators = filter (\<lambda>word. str_in word lower_text) urgency_words;
          indicators = indicators @ concat (map (\<lambda>pattern. findall pattern lower_text) time_patterns);
          indicators = append_if (str_in ''!!!'' body \<or> str_in ''!!'' body)
                         ''multiple exclamation marks'' indicators
      in indicators)"

section \<open>Substitution in one pass\<close>

text \<open>
  What the specification says of template filling: every \<open>{name}\<close> placeholder is
  replaced, in one pass over the template, by the text \<open>f name\<close>; a placeholder for
  which \<open>f\<close> gives nothing is left as it is. \<open>spec_fill\<close> takes the supplied value
  where there is one and \<open>[name]\<close> otherwise.
\<close>

function subst :: "(string \<Rightarrow> string option) \<Rightarrow> string \<Rightarrow> string" where
  "subst f [] = []"
| "subst f (c # cs) =
     (if c = CHR ''{'' \<and> takeWhile not_close cs \<noteq> [] \<and> dropWhile not_close cs \<noteq> []
      then (case f (takeWhile not_close cs) of
              Some v \<Rightarrow> v
            | None \<Rightarrow> braced (takeWhile not_close cs))
           @ subst f (tl (dropWhile not_close cs))
      else c # subst f cs)"
  by pat_completeness auto
termination
proof (relation "measure (\<lambda>(f, s). length s)")
  fix f :: "string \<Rightarrow> string option" and c :: char and cs :: string
  show "((f, tl (dropWhile not_close cs)), (f, c # cs)) \<in> measure (\<lambda>(f, s). length s)"
    using length_dropWhile_le [of not_close cs] by simp
qed simp_all




section \<open>Properties of the analysis\<close>


lemma append_if_nonempty: "append_if (xs = []) x xs \<noteq> []"
  by (simp add: append_if_def)

lemma str_in_iff: "str_in sub s \<longleftrightarrow> (\<exists>p q. s = p @ sub @ q)"
  by (induction s) (auto simp: prefix_def Cons_eq_append_conv)

lemma analyze_ticket_unfold:
  "TicketAnalysisAgent_analyze_ticket t ci =
     (case vip_check ci
             (if str_in ''payroll'' (lower t) \<or> str_in ''revenue'' (lower t)
                 \<or> str_in ''cannot work'' (lower t) then URGENT
              else if extract_urgency_indicators (lower t) \<noteq> [] then HIGH else MEDIUM) of
        Inl e \<Rightarrow> Inl e
      | Inr p3 \<Rightarrow>
          Inr \<lparr> category = fst (categorize (lower t)),
                priority = enterprise_check ci p3,
                key_points = extract_key_points (fst (categorize (lower t))) (lower t),
                required_expertise = fst (snd (categorize (lower t))),
                sentiment = analyze_sentiment (lower t),
                urgency_indicators = extract_urgency_indicators (lower t),
                business_impact =
                  (if str_in ''payroll'' (lower t) \<or> str_in ''revenue'' (lower t)
                      \<or> str_in ''cannot work'' (lower t)
                   then ''Critical business function impacted''
                   else assess_business_impact (lower t)),
                suggested_response_type = snd (snd (categorize (lower t))) \<rparr>)"
  unfolding TicketAnalysisAgent_analyze_ticket_def Let_def split_beta raise_to_def
  by simp

lemma analyze_ticket_category:
  "TicketAnalysisAgent_analyze_ticket t ci = Inr a \<Longrightarrow>
   category a = fst (categorize (lower t))
   \<and> suggested_response_type a = snd (snd (categorize (lower t)))"
  unfolding analyze_ticket_unfold by (auto split: sum.splits)

lemma analyze_ticket_key_points:
  "TicketAnalysisAgent_analyze_ticket t ci = Inr a \<Longrightarrow>
   key_points a = extract_key_points (category a) (lower t)"
  unfolding analyze_ticket_unfold by (auto split: sum.splits)

lemma analyze_ticket_sentiment:
  "TicketAnalysisAgent_analyze_ticket t ci = Inr a \<Longrightarrow>
   sentiment a = analyze_sentiment (lower t)"
  unfolding analyze_ticket_unfold by (auto split: sum.splits)

lemma analyze_ticket_impact:
  "TicketAnalysisAgent_analyze_ticket t ci = Inr a \<Longrightarrow>
   urgency_indicators a = extract_urgency_indicators (lower t)
   \<and> business_impact a =
           (if str_in ''payroll'' (lower t) \<or> str_in ''revenue'' (lower t)
               \<or> str_in ''cannot work'' (lower t)
            then ''Critical business function impacted''
            else assess_business_impact (lower t))"
  unfolding analyze_ticket_unfold by (auto split: sum.splits)

lemma analyze_ticket_priority:
  assumes "TicketAnalysisAgent_analyze_ticket t ci = Inr a"
  shows "\<exists>p3. vip_check ci
             (if str_in ''payroll'' (lower t) \<or> str_in ''revenue'' (lower t)
                 \<or> str_in ''cannot work'' (lower t) then URGENT
              else if extract_urgency_indicators (lower t) \<noteq> [] then HIGH else MEDIUM) = Inr p3
          \<and> priority a = enterprise_check ci p3"
  using assms unfolding analyze_ticket_unfold
  by (auto split: sum.splits)

lemma sentiment_formula:
  "(if int n + int p = 0 then 0.0
    else real_of_int (int p - int n) / real_of_int (int n + int p)) =
   (if p + n = 0 then 0 else (real p - real n) / (real p + real n))"
  by (simp add: add.commute)

lemma extract_key_points_nonempty: "extract_key_points cat c \<noteq> []"
  by (simp add: extract_key_points_def extract_access_key_points_def
      extract_billing_key_points_def extract_feature_key_points_def
      extract_technical_key_points_def Let_def append_if_nonempty)

lemma vip_check_Inr:
  "vip_check ci p = Inr q \<Longrightarrow>
   q = (if (case map_of ci ''role'' of Some (PyStr role) \<Rightarrow> any_in vip_roles (lower role)
            | _ \<Rightarrow> False)
        then raise_to HIGH p else p)"
  by (auto simp: vip_check_def any_in_def Let_def split: if_splits option.splits pyval.splits)

lemma count_in_card:
  "distinct ws \<Longrightarrow> count_in ws c = int (card {w \<in> set ws. str_in w c})"
  using distinct_card [of "filter (\<lambda>w. str_in w c) ws"]
  by (simp add: count_in_def)

lemma sentiment_bounds: "- 1 \<le> analyze_sentiment c \<and> analyze_sentiment c \<le> 1"
proof -
  define n where "n = count_in negative_words c"
  define p where "p = count_in positive_words c"
  have n0: "0 \<le> n" and p0: "0 \<le> p" by (simp_all add: n_def p_def count_in_def)
  show ?thesis
  proof (cases "n + p = 0")
    case True
    then show ?thesis by (simp add: analyze_sentiment_def Let_def n_def p_def)
  next
    case False
    with n0 p0 have pos: "0 < real_of_int (n + p)" by simp
    have "analyze_sentiment c = real_of_int (p - n) / real_of_int (n + p)"
      using False by (simp add: analyze_sentiment_def Let_def n_def p_def)
    moreover have "- real_of_int (n + p) \<le> real_of_int (p - n)" using n0 p0 by simp
    moreover have "real_of_int (p - n) \<le> real_of_int (n + p)" using n0 p0 by simp
    ultimately show ?thesis using pos
      by (simp add: pos_le_divide_eq pos_divide_le_eq)
  qed
qed

text \<open>
  Claim C8. Whenever \<open>analyze_ticket\<close> returns an analysis, its key-point list is
  not empty. Each of the four extractors returns a non-empty list for every content,
  and returns exactly its fallback point when none of its markers occurs in the
  content.
\<close>

theorem key_points_nonempty:
  "(TicketAnalysisAgent_analyze_ticket body ci = Inr a \<longrightarrow> key_points a \<noteq> [])
   \<and> extract_access_key_points c \<noteq> [] \<and> extract_billing_key_points c \<noteq> []
   \<and> extract_feature_key_points c \<noteq> [] \<and> extract_technical_key_points c \<noteq> []
   \<and> (\<not> any_in [''dashboard'', ''403'', ''password'', ''login'', ''permission''] c
        \<longrightarrow> extract_access_key_points c = [''General access issue''])
   \<and> (\<not> any_in [''invoice'', ''payment'', ''charge'', ''refund'', ''cycle'', ''pro-rat''] c
        \<longrightarrow> extract_billing_key_points c = [''General billing question''])
   \<and> (\<not> any_in [''request'', ''suggest'', ''add'', ''improve'', ''roadmap''] c
        \<longrightarrow> extract_feature_key_points c = [''General feature request''])
   \<and> (\<not> any_in [''error'', ''crash'', ''bug'', ''slow'', ''not working''] c
        \<longrightarrow> extract_technical_key_points c = [''Technical issue''])"
proof -
  have 1: "TicketAnalysisAgent_analyze_ticket body ci = Inr a \<longrightarrow> key_points a \<noteq> []"
    using analyze_ticket_key_points [of body ci a] extract_key_points_nonempty by simp
  have 2: "extract_access_key_points c \<noteq> []" "extract_billing_key_points c \<noteq> []"
    "extract_feature_key_points c \<noteq> []" "extract_technical_key_points c \<noteq> []"
    by (simp_all add: extract_access_key_points_def
      extract_billing_key_points_def extract_feature_key_points_def
      extract_technical_key_points_def Let_def append_if_nonempty)
  have 3: "\<not> any_in [''dashboard'', ''403'', ''password'', ''login'', ''permission''] c
        \<longrightarrow> extract_access_key_points c = [''General access issue'']"
    by (simp add: any_in_def extract_access_key_points_def append_if_def)
  have 4: "\<not> any_in [''invoice'', ''payment'', ''charge'', ''refund'', ''cycle'', ''pro-rat''] c
        \<longrightarrow> extract_billing_key_points c = [''General billing question'']"
    by (simp add: any_in_def extract_billing_key_points_def append_if_def)
  have 5: "\<not> any_in [''request'', ''suggest'', ''add'', ''improve'', ''roadmap''] c
        \<longrightarrow> extract_feature_key_points c = [''General feature request'']"
    by (simp add: any_in_def extract_feature_key_points_def append_if_def)
  have 6: "\<not> any_in [''error'', ''crash'', ''bug'', ''slow'', ''not working''] c
        \<longrightarrow> extract_technical_key_points c = [''Technical issue'']"
    by (simp add: any_in_def extract_technical_key_points_def append_if_def)
  show ?thesis using 1 2 3 4 5 6 by blast
qed

text \<open>The ticket "Help" without customer attributes: no marker occurs.\<close>

theorem key_points_nonempty_witness:
  "TicketAnalysisAgent_analyze_ticket ''Help'' [] =
     Inr \<lparr> category = TECHNICAL, priority = MEDIUM, key_points = [''Technical issue''],
           required_expertise = [''technical support'', ''troubleshooting''],
           sentiment = 0, urgency_indicators = [], business_impact = [],
           suggested_response_type = ''technical_issue'' \<rparr>
   \<and> \<not> any_in [''dashboard'', ''403'', ''password'', ''login'', ''permission''] ''help''
   \<and> \<not> any_in [''invoice'', ''payment'', ''charge'', ''refund'', ''cycle'', ''pro-rat''] ''help''
   \<and> \<not> any_in [''request'', ''suggest'', ''add'', ''improve'', ''roadmap''] ''help''
   \<and> \<not> any_in [''error'', ''crash'', ''bug'', ''slow'', ''not working''] ''help''
   \<and> extract_access_key_points ''help'' = [''General access issue'']
   \<and> extract_billing_key_points ''help'' = [''General billing question'']
   \<and> extract_feature_key_points ''help'' = [''General feature request'']
   \<and> extract_technical_key_points ''help'' = [''Technical issue'']"
proof -
  let ?A = "\<lparr> category = TECHNICAL, priority = MEDIUM, key_points = [''Technical issue''],
           required_expertise = [''technical support'', ''troubleshooting''],
           sentiment = 0, urgency_indicators = [], business_impact = [],
           suggested_response_type = ''technical_issue'' \<rparr>"
  have h: "TicketAnalysisAgent_analyze_ticket ''Help'' [] = Inr ?A"
    by code_simp
  have n: "\<not> any_in [''dashboard'', ''403'', ''password'', ''login'', ''permission''] ''help''"
    "\<not> any_in [''invoice'', ''payment'', ''charge'', ''refund'', ''cycle'', ''pro-rat''] ''help''"
    "\<not> any_in [''request'', ''suggest'', ''add'', ''improve'', ''roadmap''] ''help''"
    "\<not> any_in [''error'', ''crash'', ''bug'', ''slow'', ''not working''] ''help''"
    by code_simp+
  show ?thesis
    using h n key_points_nonempty [of "''Help''" "[]" ?A "''help''"] by simp
qed

text \<open>
  Claim C7. The sentiment of a text is computed on its lower-cased form: with \<open>n\<close>
  the number of negative lexicon words and \<open>p\<close> the number of positive lexicon
  words that occur in it as substrings, the score is \<open>(p - n) / (p + n)\<close>, and 0
  when both are zero. It lies between -1 and 1, and it is the sentiment of the
  analysis that \<open>analyze_ticket\<close> returns.
\<close>

theorem sentiment_score:
  "analyze_sentiment (lower body) =
     (let n = card {w \<in> set [''cannot'', ''issue'', ''problem'', ''error'', ''fail'', ''bug'',
                              ''broken'', ''urgent'', ''bad'', ''wrong'']. str_in w (lower body)};
          p = card {w \<in> set [''thank'', ''please'', ''appreciate'', ''good'', ''great'',
                              ''working'']. str_in w (lower body)}
      in if p + n = 0 then 0 else (real p - real n) / (real p + real n))
   \<and> - 1 \<le> analyze_sentiment (lower body) \<and> analyze_sentiment (lower body) \<le> 1
   \<and> (TicketAnalysisAgent_analyze_ticket body ci = Inr a
        \<longrightarrow> sentiment a = analyze_sentiment (lower body))"
proof -
  define n where "n = card {w \<in> set [''cannot'', ''issue'', ''problem'', ''error'', ''fail'',
      ''bug'', ''broken'', ''urgent'', ''bad'', ''wrong'']. str_in w (lower body)}"
  define p where "p = card {w \<in> set [''thank'', ''please'', ''appreciate'', ''good'', ''great'',
      ''working'']. str_in w (lower body)}"
  have n: "count_in negative_words (lower body) = int n"
    unfolding n_def using count_in_card [of negative_words "lower body"]
    by (simp add: negative_words_def)
  have p: "count_in positive_words (lower body) = int p"
    unfolding p_def using count_in_card [of positive_words "lower body"]
    by (simp add: positive_words_def)
  have "analyze_sentiment (lower body) =
     (if p + n = 0 then 0 else (real p - real n) / (real p + real n))"
    unfolding analyze_sentiment_def n p Let_def by (rule sentiment_formula)
  then have 1: "analyze_sentiment (lower body) =
     (let n = card {w \<in> set [''cannot'', ''issue'', ''problem'', ''error'', ''fail'', ''bug'',
                              ''broken'', ''urgent'', ''bad'', ''wrong'']. str_in w (lower body)};
          p = card {w \<in> set [''thank'', ''please'', ''appreciate'', ''good'', ''great'',
                              ''working'']. str_in w (lower body)}
      in if p + n = 0 then 0 else (real p - real n) / (real p + real n))"
    unfolding Let_def n_def p_def .
  show ?thesis
    using 1 sentiment_bounds [of "lower body"] analyze_ticket_sentiment [of body ci a]
    by blast
qed

text \<open>One positive word ("thank") and two negative ones ("bad", "broken").\<close>

theorem sentiment_score_witness:
  "TicketAnalysisAgent_analyze_ticket ''Thanks, it is BAD and broken'' [] =
     Inr \<lparr> category = TECHNICAL, priority = MEDIUM, key_points = [''Technical issue''],
           required_expertise = [''technical support'', ''troubleshooting''],
           sentiment = - 1 / 3, urgency_indicators = [], business_impact = [],
           suggested_response_type = ''technical_issue'' \<rparr>
   \<and> analyze_sentiment (lower ''Thanks, it is BAD and broken'') = - 1 / 3"
proof -
  let ?A = "\<lparr> category = TECHNICAL, priority = MEDIUM, key_points = [''Technical issue''],
           required_expertise = [''technical support'', ''troubleshooting''],
           sentiment = - 1 / 3, urgency_indicators = [], business_impact = [],
           suggested_response_type = ''technical_issue'' \<rparr>"
  have h: "TicketAnalysisAgent_analyze_ticket ''Thanks, it is BAD and broken'' [] = Inr ?A"
    by code_simp
  show ?thesis
    using h sentiment_score [of "''Thanks, it is BAD and broken''" "[]" ?A] by simp
qed

lemma categorize_fst:
  "fst (categorize c) =
     (if any_in [''access'', ''login'', ''permission'', ''403'', ''dashboard''] c then ACCESS
      else if any_in [''bill'', ''invoice'', ''payment'', ''charge'', ''pricing'', ''cost'',
                      ''subscription''] c then BILLING
      else if any_in [''feature'', ''enhancement'', ''improvement'', ''add'', ''suggestion'',
                      ''roadmap''] c then FEATURE
      else TECHNICAL)"
  by (simp add: categorize_def access_words_def billing_words_def feature_words_def)

lemma categorize_key:
  "snd (snd (categorize c)) =
     (case fst (categorize c) of
        ACCESS \<Rightarrow> ''access_issue'' | BILLING \<Rightarrow> ''billing_inquiry''
      | FEATURE \<Rightarrow> ''feature_request'' | TECHNICAL \<Rightarrow> ''technical_issue'')"
  by (simp add: categorize_def)

text \<open>
  Claim C2, amended. The category of a returned analysis is the first match, on the
  lower-cased content, in the order access, billing, feature, and technical
  otherwise; the suggested response type is the fixed key of that category. A ticket
  that contains both "invoice" and "feature request" is never classified as feature,
  and it is classified as billing when no access word occurs in it.
\<close>

theorem category_first_match:
  "TicketAnalysisAgent_analyze_ticket body ci = Inr a \<Longrightarrow>
   category a =
     (if any_in [''access'', ''login'', ''permission'', ''403'', ''dashboard''] (lower body)
        then ACCESS
      else if any_in [''bill'', ''invoice'', ''payment'', ''charge'', ''pricing'', ''cost'',
                      ''subscription''] (lower body) then BILLING
      else if any_in [''feature'', ''enhancement'', ''improvement'', ''add'', ''suggestion'',
                      ''roadmap''] (lower body) then FEATURE
      else TECHNICAL)
   \<and> suggested_response_type a =
     (case category a of
        ACCESS \<Rightarrow> ''access_issue'' | BILLING \<Rightarrow> ''billing_inquiry''
      | FEATURE \<Rightarrow> ''feature_request'' | TECHNICAL \<Rightarrow> ''technical_issue'')
   \<and> (str_in ''invoice'' (lower body) \<and> str_in ''feature request'' (lower body) \<longrightarrow>
        category a \<noteq> FEATURE
        \<and> (\<not> any_in [''access'', ''login'', ''permission'', ''403'', ''dashboard''] (lower body)
             \<longrightarrow> category a = BILLING))"
proof -
  assume h: "TicketAnalysisAgent_analyze_ticket body ci = Inr a"
  have c: "category a = fst (categorize (lower body))"
    and k: "suggested_response_type a = snd (snd (categorize (lower body)))"
    using analyze_ticket_category [OF h] by simp_all
  have 1: "category a =
     (if any_in [''access'', ''login'', ''permission'', ''403'', ''dashboard''] (lower body)
        then ACCESS
      else if any_in [''bill'', ''invoice'', ''payment'', ''charge'', ''pricing'', ''cost'',
                      ''subscription''] (lower body) then BILLING
      else if any_in [''feature'', ''enhancement'', ''improvement'', ''add'', ''suggestion'',
                      ''roadmap''] (lower body) then FEATURE
      else TECHNICAL)"
    unfolding c by (rule categorize_fst)
  have 2: "suggested_response_type a =
     (case category a of
        ACCESS \<Rightarrow> ''access_issue'' | BILLING \<Rightarrow> ''billing_inquiry''
      | FEATURE \<Rightarrow> ''feature_request'' | TECHNICAL \<Rightarrow> ''technical_issue'')"
    unfolding c k by (rule categorize_key)
  have 3: "str_in ''invoice'' (lower body) \<and> str_in ''feature request'' (lower body) \<longrightarrow>
        category a \<noteq> FEATURE
        \<and> (\<not> any_in [''access'', ''login'', ''permission'', ''403'', ''dashboard''] (lower body)
             \<longrightarrow> category a = BILLING)"
    unfolding 1 by (simp add: any_in_def)
  show ?thesis using 1 2 3 by blast
qed

text \<open>A ticket with "invoice" and "feature request" and no access word.\<close>

theorem category_first_match_witness:
  "TicketAnalysisAgent_analyze_ticket ''Invoice and Feature Request'' [] =
     Inr \<lparr> category = BILLING, priority = MEDIUM, key_points = [''Invoice question''],
           required_expertise = [''billing'', ''accounting'', ''finance''],
           sentiment = 0, urgency_indicators = [], business_impact = [],
           suggested_response_type = ''billing_inquiry'' \<rparr>
   \<and> str_in ''invoice'' (lower ''Invoice and Feature Request'')
   \<and> str_in ''feature request'' (lower ''Invoice and Feature Request'')
   \<and> \<not> any_in [''access'', ''login'', ''permission'', ''403'', ''dashboard'']
          (lower ''Invoice and Feature Request'')"
proof -
  let ?A = "\<lparr> category = BILLING, priority = MEDIUM, key_points = [''Invoice question''],
           required_expertise = [''billing'', ''accounting'', ''finance''],
           sentiment = 0, urgency_indicators = [], business_impact = [],
           suggested_response_type = ''billing_inquiry'' \<rparr>"
  have h: "TicketAnalysisAgent_analyze_ticket ''Invoice and Feature Request'' [] = Inr ?A"
    by code_simp
  have s: "str_in ''invoice'' (lower ''Invoice and Feature Request'')"
    "str_in ''feature request'' (lower ''Invoice and Feature Request'')"
    "\<not> any_in [''access'', ''login'', ''permission'', ''403'', ''dashboard'']
          (lower ''Invoice and Feature Request'')"
    by code_simp+
  show ?thesis using h s category_first_match [OF h] by simp
qed

text \<open>
  Claim C2 as stated says that a ticket containing both "invoice" and
  "feature request" classifies as billing. The ticket below contains both, and
  "login" as well: the access rule is tested first and the category is access.
\<close>

theorem category_billing_counterexample:
  "str_in ''invoice'' (lower ''invoice feature request login'')
   \<and> str_in ''feature request'' (lower ''invoice feature request login'')
   \<and> TicketAnalysisAgent_analyze_ticket ''invoice feature request login'' [] =
     Inr \<lparr> category = ACCESS, priority = MEDIUM, key_points = [''Login problem''],
           required_expertise = [''access control'', ''permissions'', ''authentication''],
           sentiment = 0, urgency_indicators = [], business_impact = [],
           suggested_response_type = ''access_issue'' \<rparr>"
  by code_simp

lemma enterprise_check_noop:
  "2 \<le> priority_value p \<Longrightarrow> enterprise_check ci p = p"
  by (simp add: enterprise_check_def raise_to_def)

text \<open>
  Claim C3, amended. The priority of a returned analysis is urgent when the
  lower-cased ticket content contains "payroll", "revenue" or "cannot work", and then
  the business impact is "Critical business function impacted"; otherwise the
  business impact is the one assessed from the content, and the priority is high
  when there is an urgency indicator or the customer role contains a VIP marker, and
  medium in every other case. The Enterprise plan changes nothing, and the priority
  is never below medium.
\<close>

theorem priority_rules:
  "TicketAnalysisAgent_analyze_ticket body ci = Inr a \<Longrightarrow>
   urgency_indicators a = extract_urgency_indicators (lower body)
   \<and> priority a =
       (if str_in ''payroll'' (lower body) \<or> str_in ''revenue'' (lower body)
           \<or> str_in ''cannot work'' (lower body) then URGENT
        else if urgency_indicators a \<noteq> []
                \<or> (case map_of ci ''role'' of
                      Some (PyStr role) \<Rightarrow>
                        any_in [''ceo'', ''cfo'', ''cto'', ''director'', ''vp'',
                                ''vice president'', ''president'', ''head'', ''chief'',
                                ''manager''] (lower role)
                    | _ \<Rightarrow> False) then HIGH
        else MEDIUM)
   \<and> business_impact a =
       (if str_in ''payroll'' (lower body) \<or> str_in ''revenue'' (lower body)
           \<or> str_in ''cannot work'' (lower body)
        then ''Critical business function impacted''
        else assess_business_impact (lower body))
   \<and> 2 \<le> priority_value (priority a)"
proof -
  assume h: "TicketAnalysisAgent_analyze_ticket body ci = Inr a"
  define crit where "crit = (str_in ''payroll'' (lower body) \<or> str_in ''revenue'' (lower body)
           \<or> str_in ''cannot work'' (lower body))"
  define vip where "vip = (case map_of ci ''role'' of
                      Some (PyStr role) \<Rightarrow> any_in vip_roles (lower role) | _ \<Rightarrow> False)"
  define p2 where "p2 = (if crit then URGENT
              else if extract_urgency_indicators (lower body) \<noteq> [] then HIGH else MEDIUM)"
  from analyze_ticket_priority [OF h] obtain p3 where
    v: "vip_check ci p2 = Inr p3" and e: "priority a = enterprise_check ci p3"
    unfolding p2_def crit_def by blast
  have p3: "p3 = (if vip then raise_to HIGH p2 else p2)"
    using vip_check_Inr [OF v] unfolding vip_def .
  have ge: "2 \<le> priority_value p3"
    unfolding p3 p2_def raise_to_def by simp
  have pa: "priority a = p3"
    unfolding e by (rule enterprise_check_noop [OF ge])
  have i: "urgency_indicators a = extract_urgency_indicators (lower body)"
    and b: "business_impact a =
       (if crit then ''Critical business function impacted''
        else assess_business_impact (lower body))"
    using analyze_ticket_impact [OF h] unfolding crit_def by simp_all
  have "priority a =
       (if crit then URGENT else if urgency_indicators a \<noteq> [] \<or> vip then HIGH else MEDIUM)"
    unfolding pa p3 p2_def i raise_to_def by simp
  then show ?thesis
    using i b ge unfolding pa [symmetric] crit_def vip_def vip_roles_def by simp
qed

text \<open>A ticket about payroll from a CEO.\<close>

theorem priority_rules_witness:
  "TicketAnalysisAgent_analyze_ticket ''Payroll is down'' [(''role'', PyStr ''CEO'')] =
     Inr \<lparr> category = TECHNICAL, priority = URGENT, key_points = [''Technical issue''],
           required_expertise = [''technical support'', ''troubleshooting''],
           sentiment = 0, urgency_indicators = [],
           business_impact = ''Critical business function impacted'',
           suggested_response_type = ''technical_issue'' \<rparr>
   \<and> extract_urgency_indicators (lower ''Payroll is down'') = []
   \<and> (2 :: int) \<le> priority_value URGENT"
proof -
  let ?A = "\<lparr> category = TECHNICAL, priority = URGENT, key_points = [''Technical issue''],
           required_expertise = [''technical support'', ''troubleshooting''],
           sentiment = 0, urgency_indicators = [],
           business_impact = ''Critical business function impacted'',
           suggested_response_type = ''technical_issue'' \<rparr>"
  have h: "TicketAnalysisAgent_analyze_ticket ''Payroll is down'' [(''role'', PyStr ''CEO'')]
             = Inr ?A"
    by code_simp
  show ?thesis using h priority_rules [OF h] by simp
qed

text \<open>
  Claim C3 as stated ties the urgent rule to the business-impact text. For the
  content "sales" the assessed business-impact text is "Revenue impact", which
  contains "revenue" once lower-cased, yet the priority stays medium and the impact
  is not overwritten. For the content "cannot work" the assessed text is empty, yet
  the priority is urgent and the impact is overwritten: the rule reads the content.
\<close>

theorem business_impact_text_counterexample:
  "TicketAnalysisAgent_analyze_ticket ''sales'' [] =
     Inr \<lparr> category = TECHNICAL, priority = MEDIUM, key_points = [''Technical issue''],
           required_expertise = [''technical support'', ''troubleshooting''],
           sentiment = 0, urgency_indicators = [],
           business_impact = ''Revenue impact'',
           suggested_response_type = ''technical_issue'' \<rparr>
   \<and> assess_business_impact (lower ''sales'') = ''Revenue impact''
   \<and> str_in ''revenue'' (lower ''Revenue impact'')
   \<and> TicketAnalysisAgent_analyze_ticket ''cannot work'' [] =
     Inr \<lparr> category = TECHNICAL, priority = URGENT, key_points = [''Technical issue''],
           required_expertise = [''technical support'', ''troubleshooting''],
           sentiment = - 1, urgency_indicators = [],
           business_impact = ''Critical business function impacted'',
           suggested_response_type = ''technical_issue'' \<rparr>
   \<and> assess_business_impact (lower ''cannot work'') = []"
  by code_simp

section \<open>Properties of the response\<close>

lemma generate_response_Inr:
  "ResponseAgent_generate_response a ts ctx = Inr r \<Longrightarrow>
   confidence_score r =
     max 0.1 (min ((if sentiment a < - 0.5
                    then (if length (key_points a) \<le> 1 then 0.8 - 0.2 else 0.8) - 0.1
                    else (if length (key_points a) \<le> 1 then 0.8 - 0.2 else 0.8))) 1.0)
   \<and> suggested_actions r =
       append_if (sentiment a < - 0.5) ''Follow up personally due to customer sentiment''
         (append_if (priority_value (priority a) = 4)
            ''Supervisory review required due to priority'' (category_actions a))
   \<and> requires_approval r = (priority_value (priority a) = 4)"
  unfolding ResponseAgent_generate_response_def Let_def
  by (auto split: sum.splits)

lemma select_template_key_empty: "select_template_key a [] = Inl IndexError"
  by (simp add: select_template_key_def)

lemma generate_response_empty: "ResponseAgent_generate_response a [] ctx = Inl IndexError"
  by (simp add: ResponseAgent_generate_response_def select_template_key_empty)

text \<open>
  Claim C4. Whenever \<open>generate_response\<close> returns, the confidence score is 0.8,
  less 0.2 when the analysis has at most one key point, less 0.1 when the sentiment
  is below -0.5, clamped to the interval from 0.1 to 1.0; it therefore lies in that
  interval. When the sentiment is below -0.5 the personal follow-up is the last of
  the suggested actions.
\<close>

theorem confidence_bounds:
  "ResponseAgent_generate_response a ts ctx = Inr r \<Longrightarrow>
   confidence_score r =
     max 0.1 (min (0.8 - (if length (key_points a) \<le> 1 then 0.2 else 0)
                       - (if sentiment a < - 0.5 then 0.1 else 0)) 1.0)
   \<and> 0.1 \<le> confidence_score r \<and> confidence_score r \<le> 1.0
   \<and> (sentiment a < - 0.5 \<longrightarrow>
        suggested_actions r \<noteq> []
        \<and> last (suggested_actions r) = ''Follow up personally due to customer sentiment'')"
proof -
  assume h: "ResponseAgent_generate_response a ts ctx = Inr r"
  note g = generate_response_Inr [OF h]
  have c: "confidence_score r =
     max 0.1 (min ((if sentiment a < - 0.5
                    then (if length (key_points a) \<le> 1 then 0.8 - 0.2 else 0.8) - 0.1
                    else (if length (key_points a) \<le> 1 then 0.8 - 0.2 else 0.8))) 1.0)"
    using g by (rule conjunct1)
  have s: "suggested_actions r =
       append_if (sentiment a < - 0.5) ''Follow up personally due to customer sentiment''
         (append_if (priority_value (priority a) = 4)
            ''Supervisory review required due to priority'' (category_actions a))"
    using g by (elim conjE)
  have 1: "confidence_score r =
     max 0.1 (min (0.8 - (if length (key_points a) \<le> 1 then 0.2 else 0)
                       - (if sentiment a < - 0.5 then 0.1 else 0)) 1.0)"
    unfolding c by (cases "sentiment a < - 0.5"; cases "length (key_points a) \<le> 1") simp_all
  have 2: "0.1 \<le> confidence_score r \<and> confidence_score r \<le> 1.0"
    unfolding c by (cases "sentiment a < - 0.5"; cases "length (key_points a) \<le> 1") simp_all
  have 3: "sentiment a < - 0.5 \<longrightarrow>
        suggested_actions r \<noteq> []
        \<and> last (suggested_actions r) = ''Follow up personally due to customer sentiment''"
    unfolding s append_if_def by simp
  show ?thesis using 1 2 3 by blast
qed

text \<open>An analysis with one key point and sentiment -1: the score is 0.5.\<close>

theorem confidence_bounds_witness:
  "ResponseAgent_generate_response
     \<lparr> category = TECHNICAL, priority = MEDIUM, key_points = [''Error reported''],
       required_expertise = [], sentiment = - 1, urgency_indicators = [],
       business_impact = [], suggested_response_type = ''technical_issue'' \<rparr>
     [(''technical_issue'', ''Hello {name}'')] Map.empty =
     Inr \<lparr> response_text = ''Hello Customer'', confidence_score = 0.5,
           requires_approval = False,
           suggested_actions =
             [''Document the issue in internal knowledge base'',
              ''Check for similar recent technical issues'',
              ''Follow up personally due to customer sentiment''] \<rparr>
   \<and> (0.1 :: real) \<le> 0.5 \<and> (0.5 :: real) \<le> 1.0"
proof -
  let ?a = "\<lparr> category = TECHNICAL, priority = MEDIUM, key_points = [''Error reported''],
       required_expertise = [], sentiment = - 1, urgency_indicators = [],
       business_impact = [], suggested_response_type = ''technical_issue'' \<rparr>"
  let ?r = "\<lparr> response_text = ''Hello Customer'', confidence_score = 0.5,
           requires_approval = False,
           suggested_actions =
             [''Document the issue in internal knowledge base'',
              ''Check for similar recent technical issues'',
              ''Follow up personally due to customer sentiment''] \<rparr>"
  have h: "ResponseAgent_generate_response ?a [(''technical_issue'', ''Hello {name}'')]
             Map.empty = Inr ?r"
    by code_simp
  have b: "(0.1 :: real) \<le> confidence_score ?r \<and> confidence_score ?r \<le> 1.0"
    using confidence_bounds [OF h] by blast
  show ?thesis using h b by simp
qed

text \<open>
  Claim C6, amended. For a template set that is not empty, template selection does
  not raise: it returns the suggested response type when that is a key of the set,
  otherwise the category name when that is a key, otherwise the key of the first
  entry; the key returned is always a key of the set, so the lookup that follows
  succeeds.
\<close>

theorem template_selection:
  "ts \<noteq> [] \<Longrightarrow>
   select_template_key a ts =
     Inr (if suggested_response_type a \<in> fst ` set ts then suggested_response_type a
          else if category_value (category a) \<in> fst ` set ts then category_value (category a)
          else fst (hd ts))
   \<and> (\<exists>k template. select_template_key a ts = Inr k \<and> map_of ts k = Some template)"
proof -
  assume ne: "ts \<noteq> []"
  then obtain k0 v0 rest where ts: "ts = (k0, v0) # rest"
    by (cases ts) auto
  have dom: "\<And>k. (map_of ts k = None) = (k \<notin> fst ` set ts)"
    by (simp add: map_of_eq_None_iff)
  let ?k = "if suggested_response_type a \<in> fst ` set ts then suggested_response_type a
          else if category_value (category a) \<in> fst ` set ts then category_value (category a)
          else fst (hd ts)"
  have 1: "select_template_key a ts = Inr ?k"
    unfolding select_template_key_def Let_def dom by (simp add: ts)
  have "?k \<in> fst ` set ts"
    by (simp add: ts)
  then have "map_of ts ?k \<noteq> None"
    unfolding dom by simp
  then obtain template where "map_of ts ?k = Some template" by blast
  then show ?thesis using 1 by blast
qed

text \<open>
  A set without the suggested key: one analysis falls back to its category name,
  the other to the first entry.
\<close>

theorem template_selection_witness:
  "[(''billing_inquiry'', ''B''), (''technical'', ''T'')] \<noteq> []
   \<and> select_template_key
       \<lparr> category = TECHNICAL, priority = MEDIUM, key_points = [''Error reported''],
         required_expertise = [], sentiment = 0, urgency_indicators = [],
         business_impact = [], suggested_response_type = ''technical_issue'' \<rparr>
       [(''billing_inquiry'', ''B''), (''technical'', ''T'')] = Inr ''technical''
   \<and> select_template_key
       \<lparr> category = FEATURE, priority = MEDIUM, key_points = [''Feature request''],
         required_expertise = [], sentiment = 0, urgency_indicators = [],
         business_impact = [], suggested_response_type = ''feature_request'' \<rparr>
       [(''billing_inquiry'', ''B''), (''technical'', ''T'')] = Inr ''billing_inquiry''"
proof -
  let ?ts = "[(''billing_inquiry'', ''B''), (''technical'', ''T'')]"
  let ?a = "\<lparr> category = TECHNICAL, priority = MEDIUM, key_points = [''Error reported''],
         required_expertise = [], sentiment = 0, urgency_indicators = [],
         business_impact = [], suggested_response_type = ''technical_issue'' \<rparr>"
  let ?b = "\<lparr> category = FEATURE, priority = MEDIUM, key_points = [''Feature request''],
         required_expertise = [], sentiment = 0, urgency_indicators = [],
         business_impact = [], suggested_response_type = ''feature_request'' \<rparr>"
  have ne: "?ts \<noteq> []" by simp
  have 1: "select_template_key ?a ?ts = Inr ''technical''"
    using template_selection [OF ne, of ?a, THEN conjunct1] by simp
  have 2: "select_template_key ?b ?ts = Inr ''billing_inquiry''"
    using template_selection [OF ne, of ?b, THEN conjunct1] by simp
  show ?thesis using ne 1 2 by blast
qed

text \<open>
  Claim C6 as stated covers every template set. On the empty set the fallback to
  the first entry raises IndexError, and so does \<open>generate_response\<close>.
\<close>

theorem template_selection_empty_counterexample:
  "select_template_key
       \<lparr> category = TECHNICAL, priority = MEDIUM, key_points = [''Error reported''],
         required_expertise = [], sentiment = 0, urgency_indicators = [],
         business_impact = [], suggested_response_type = ''technical_issue'' \<rparr>
       [] = Inl IndexError
   \<and> ResponseAgent_generate_response
       \<lparr> category = TECHNICAL, priority = MEDIUM, key_points = [''Error reported''],
         required_expertise = [], sentiment = 0, urgency_indicators = [],
         business_impact = [], suggested_response_type = ''technical_issue'' \<rparr>
       [] Map.empty = Inl IndexError"
  by (simp add: select_template_key_empty generate_response_empty)

section \<open>Properties of the orchestration\<close>

lemma process_ticket_cases:
  "process_ticket t0 t1 ts ticket =
     (case TicketProcessor_analyze_ticket ticket of
        None \<Rightarrow>
          \<lparr> ticket_id = tid ticket, analysis = None, response = None,
            status = ''error'', processing_time = t1 - t0,
            error = Some ''Analysis failed'' \<rparr>
      | Some an \<Rightarrow>
          (case TicketProcessor_generate_response ts an (build_context ticket) of
             None \<Rightarrow>
               \<lparr> ticket_id = tid ticket, analysis = Some an, response = None,
                 status = ''error'', processing_time = t1 - t0,
                 error = Some ''Response generation failed'' \<rparr>
           | Some r \<Rightarrow>
               \<lparr> ticket_id = tid ticket, analysis = Some an, response = Some r,
                 status = ''resolved'', processing_time = t1 - t0, error = None \<rparr>))"
  by (simp add: process_ticket_def Let_def split: option.splits)


lemma process_ticket_empty_templates:
  "process_ticket t0 t1 [] ticket =
     (case TicketAnalysisAgent_analyze_ticket (content ticket) (customer_info ticket) of
        Inr an \<Rightarrow>
          \<lparr> ticket_id = tid ticket, analysis = Some an, response = None,
            status = ''error'', processing_time = t1 - t0,
            error = Some ''Response generation failed'' \<rparr>
      | Inl e \<Rightarrow>
          \<lparr> ticket_id = tid ticket, analysis = None, response = None,
            status = ''error'', processing_time = t1 - t0,
            error = Some ''Analysis failed'' \<rparr>)"
  unfolding process_ticket_cases TicketProcessor_analyze_ticket_def
    TicketProcessor_generate_response_def generate_response_empty
  by (simp split: sum.splits)

lemma analyze_ticket_total:
  "(case map_of ci ''role'' of None \<Rightarrow> True | Some (PyStr role) \<Rightarrow> True | Some _ \<Rightarrow> False)
   \<Longrightarrow> \<exists>a. TicketAnalysisAgent_analyze_ticket t ci = Inr a"
  unfolding analyze_ticket_unfold vip_check_def Let_def
  by (auto split: option.splits pyval.splits)

text \<open>
  Claim C10, amended. With an empty template mapping \<open>generate_response\<close> raises
  IndexError for every analysis and context, and \<open>process_ticket\<close> returns a
  resolution with status "error" and no response: when the analysis succeeds, which
  it does whenever the customer role is absent or a string, the error is
  "Response generation failed" and the analysis is attached; when the analysis
  fails, the error is "Analysis failed" and no analysis is attached.
\<close>

theorem empty_templates:
  "ResponseAgent_generate_response a [] ctx = Inl IndexError
   \<and> process_ticket start_time end_time [] ticket =
     (case TicketAnalysisAgent_analyze_ticket (content ticket) (customer_info ticket) of
        Inr an \<Rightarrow>
          \<lparr> ticket_id = tid ticket, analysis = Some an, response = None,
            status = ''error'', processing_time = end_time - start_time,
            error = Some ''Response generation failed'' \<rparr>
      | Inl e \<Rightarrow>
          \<lparr> ticket_id = tid ticket, analysis = None, response = None,
            status = ''error'', processing_time = end_time - start_time,
            error = Some ''Analysis failed'' \<rparr>)
   \<and> ((case map_of (customer_info ticket) ''role'' of
          None \<Rightarrow> True | Some (PyStr role) \<Rightarrow> True | Some _ \<Rightarrow> False) \<longrightarrow>
        (\<exists>an. TicketAnalysisAgent_analyze_ticket (content ticket) (customer_info ticket) = Inr an
           \<and> process_ticket start_time end_time [] ticket =
               \<lparr> ticket_id = tid ticket, analysis = Some an, response = None,
                 status = ''error'', processing_time = end_time - start_time,
                 error = Some ''Response generation failed'' \<rparr>))"
proof -
  have 3: "(case map_of (customer_info ticket) ''role'' of
          None \<Rightarrow> True | Some (PyStr role) \<Rightarrow> True | Some _ \<Rightarrow> False) \<longrightarrow>
        (\<exists>an. TicketAnalysisAgent_analyze_ticket (content ticket) (customer_info ticket) = Inr an
           \<and> process_ticket start_time end_time [] ticket =
               \<lparr> ticket_id = tid ticket, analysis = Some an, response = None,
                 status = ''error'', processing_time = end_time - start_time,
                 error = Some ''Response generation failed'' \<rparr>)"
  proof
    assume "case map_of (customer_info ticket) ''role'' of
          None \<Rightarrow> True | Some (PyStr role) \<Rightarrow> True | Some _ \<Rightarrow> False"
    from analyze_ticket_total [OF this] obtain an where
      an: "TicketAnalysisAgent_analyze_ticket (content ticket) (customer_info ticket) = Inr an"
      by blast
    then show "\<exists>an. TicketAnalysisAgent_analyze_ticket (content ticket) (customer_info ticket) = Inr an
           \<and> process_ticket start_time end_time [] ticket =
               \<lparr> ticket_id = tid ticket, analysis = Some an, response = None,
                 status = ''error'', processing_time = end_time - start_time,
                 error = Some ''Response generation failed'' \<rparr>"
      unfolding process_ticket_empty_templates by simp
  qed
  show ?thesis
    using generate_response_empty [of a ctx]
      process_ticket_empty_templates [of start_time end_time ticket] 3
    by blast
qed



text \<open>A ticket without customer attributes, processed with no template.\<close>

theorem empty_templates_witness:
  "ResponseAgent_generate_response
     \<lparr> category = TECHNICAL, priority = MEDIUM, key_points = [''Technical issue''],
       required_expertise = [''technical support'', ''troubleshooting''],
       sentiment = 0, urgency_indicators = [], business_impact = [],
       suggested_response_type = ''technical_issue'' \<rparr> [] Map.empty = Inl IndexError
   \<and> (case map_of ([] :: (string \<times> pyval) list) ''role'' of
          None \<Rightarrow> True | Some (PyStr role) \<Rightarrow> True | Some _ \<Rightarrow> False)
   \<and> process_ticket 0 1 []
        \<lparr> tid = ''T1'', subject = ''s'', content = ''Help'', customer_info = [] \<rparr> =
      \<lparr> ticket_id = ''T1'',
        analysis = Some \<lparr> category = TECHNICAL, priority = MEDIUM,
                          key_points = [''Technical issue''],
                          required_expertise = [''technical support'', ''troubleshooting''],
                          sentiment = 0, urgency_indicators = [], business_impact = [],
                          suggested_response_type = ''technical_issue'' \<rparr>,
        response = None, status = ''error'', processing_time = 1 - 0,
        error = Some ''Response generation failed'' \<rparr>"
proof -
  let ?A = "\<lparr> category = TECHNICAL, priority = MEDIUM, key_points = [''Technical issue''],
       required_expertise = [''technical support'', ''troubleshooting''],
       sentiment = 0, urgency_indicators = [], business_impact = [],
       suggested_response_type = ''technical_issue'' \<rparr>"
  let ?T = "\<lparr> tid = ''T1'', subject = ''s'', content = ''Help'', customer_info = [] \<rparr>"
  note E = empty_templates [of ?A Map.empty 0 1 ?T]
  have h: "TicketAnalysisAgent_analyze_ticket (content ?T) (customer_info ?T) = Inr ?A"
    by code_simp
  have c: "case map_of (customer_info ?T) ''role'' of
          None \<Rightarrow> True | Some (PyStr role) \<Rightarrow> True | Some _ \<Rightarrow> False"
    by simp
  from E c obtain an where
    an: "TicketAnalysisAgent_analyze_ticket (content ?T) (customer_info ?T) = Inr an"
    and p: "process_ticket 0 1 [] ?T =
               \<lparr> ticket_id = tid ?T, analysis = Some an, response = None,
                 status = ''error'', processing_time = 1 - 0,
                 error = Some ''Response generation failed'' \<rparr>"
    by blast
  from an h have "an = ?A" by simp
  with p have p': "process_ticket 0 1 [] ?T =
               \<lparr> ticket_id = ''T1'', analysis = Some ?A, response = None,
                 status = ''error'', processing_time = 1 - 0,
                 error = Some ''Response generation failed'' \<rparr>"
    by simp
  have g: "ResponseAgent_generate_response ?A [] Map.empty = Inl IndexError"
    using E by blast
  have c': "case map_of ([] :: (string \<times> pyval) list) ''role'' of
          None \<Rightarrow> True | Some (PyStr role) \<Rightarrow> True | Some _ \<Rightarrow> False"
    by simp
  show ?thesis using g c' p' by blast
qed

text \<open>
  Claim C10 as stated gives "Response generation failed" with the analysis attached
  for every ticket. A ticket whose role is the integer 5 fails in the analysis
  stage: the error is "Analysis failed" and no analysis is attached.
\<close>

theorem empty_templates_analysis_failed_counterexample:
  "process_ticket 0 1 []
     \<lparr> tid = ''T1'', subject = ''s'', content = ''Help'',
       customer_info = [(''role'', PyInt 5)] \<rparr> =
   \<lparr> ticket_id = ''T1'', analysis = None, response = None, status = ''error'',
     processing_time = 1, error = Some ''Analysis failed'' \<rparr>"
  by code_simp

section \<open>Properties of the urgency extractors\<close>

lemma findall_nonempty_step:
  "findall r s \<noteq> [] \<longleftrightarrow>
   rmatch [r] s \<noteq> None \<or> (case s of [] \<Rightarrow> False | _ # xs \<Rightarrow> findall r xs \<noteq> [])"
  by (subst findall.simps) (auto split: option.splits list.splits)

lemma findall_nonempty: "findall r s \<noteq> [] \<longleftrightarrow> re_search r s"
proof (induction s)
  case Nil
  show ?case using findall_nonempty_step [of r "[]"] by simp
next
  case (Cons c cs)
  show ?case using findall_nonempty_step [of r "c # cs"] Cons.IH by simp
qed

lemma filter_nonempty: "filter P ws \<noteq> [] \<longleftrightarrow> list_ex P ws"
  by (induction ws) auto

lemma concat_map_nonempty: "concat (map f ps) \<noteq> [] \<longleftrightarrow> list_ex (\<lambda>p. f p \<noteq> []) ps"
  by (induction ps) auto

lemma str_in_longer: "str_in (u @ v) s \<Longrightarrow> str_in u s"
  unfolding str_in_iff by (metis append.assoc)

lemma str_in_exclamations: "str_in ''!!!'' s \<Longrightarrow> str_in ''!!'' s"
  using str_in_longer [of "''!!''" "''!''" s] by simp

lemma identify_urgency_indicators_nonempty:
  "identify_urgency_indicators body \<noteq> [] \<longleftrightarrow>
     any_in urgency_words (lower body)
     \<or> list_ex (\<lambda>p. re_search p (lower body)) time_patterns
     \<or> str_in ''!!'' body"
proof -
  have e: "(str_in ''!!!'' body \<or> str_in ''!!'' body) = str_in ''!!'' body"
    using str_in_exclamations [of body] by blast
  have "identify_urgency_indicators body =
          append_if (str_in ''!!'' body) ''multiple exclamation marks''
            (filter (\<lambda>word. str_in word (lower body)) urgency_words
             @ concat (map (\<lambda>pattern. findall pattern (lower body)) time_patterns))"
    unfolding identify_urgency_indicators_def Let_def e by (rule refl)
  then show ?thesis
    by (simp add: append_if_def any_in_def filter_nonempty concat_map_nonempty
        findall_nonempty list_ex_iff)
qed

lemma extract_urgency_indicators_nonempty:
  "extract_urgency_indicators c \<noteq> [] \<longleftrightarrow>
     any_in urgency_keywords c \<or> 3 \<le> count_char (CHR ''!'') c
     \<or> str_in ''today'' c \<or> str_in ''now'' c \<or> str_in ''immediately'' c"
  unfolding extract_urgency_indicators_def Let_def append_if_def any_in_def
  by (auto simp: filter_nonempty)

text \<open>
  Claim C9, amended. The repository has two extractors of urgency indicators.
  \<open>identify_urgency_indicators\<close> of the helpers returns a non-empty list exactly
  when the lower-cased text contains one of the twelve vocabulary phrases, or one of
  the three time patterns matches it, or the text contains two consecutive
  exclamation marks. \<open>_extract_urgency_indicators\<close> of the analysis agent, the one
  that \<open>analyze_ticket\<close> calls on the lower-cased content, returns a non-empty list
  exactly when the content contains one of its eight keywords, or at least three
  exclamation marks anywhere, or "today", "now" or "immediately".
\<close>

theorem urgency_indicators_nonempty:
  "(identify_urgency_indicators body \<noteq> [] \<longleftrightarrow>
      any_in [''urgent'', ''asap'', ''emergency'', ''immediately'', ''critical'',
              ''as soon as possible'', ''quickly'', ''right away'', ''highest priority'',
              ''deadline'', ''sos'', ''time sensitive''] (lower body)
      \<or> list_ex (\<lambda>pattern. re_search pattern (lower body)) time_patterns
      \<or> str_in ''!!'' body)
   \<and> (extract_urgency_indicators (lower body) \<noteq> [] \<longleftrightarrow>
      any_in [''urgent'', ''asap'', ''immediately'', ''emergency'', ''critical'',
              ''as soon as possible'', ''right away'', ''time sensitive''] (lower body)
      \<or> 3 \<le> count_char (CHR ''!'') (lower body)
      \<or> str_in ''today'' (lower body) \<or> str_in ''now'' (lower body)
      \<or> str_in ''immediately'' (lower body))"
proof -
  have w: "any_in urgency_words (lower body) =
      any_in [''urgent'', ''asap'', ''emergency'', ''immediately'', ''critical'',
              ''as soon as possible'', ''quickly'', ''right away'', ''highest priority'',
              ''deadline'', ''sos'', ''time sensitive''] (lower body)"
    unfolding any_in_def urgency_words_def by auto
  have k: "any_in urgency_keywords (lower body) =
      any_in [''urgent'', ''asap'', ''immediately'', ''emergency'', ''critical'',
              ''as soon as possible'', ''right away'', ''time sensitive''] (lower body)"
    unfolding urgency_keywords_def by (rule refl)
  show ?thesis
    using identify_urgency_indicators_nonempty [of body]
      extract_urgency_indicators_nonempty [of "lower body"]
    unfolding w k by blast
qed

text \<open>
  Claim C9 as stated speaks of urgency-indicator extraction as one rule. On
  "Deadline!!" a vocabulary phrase and two consecutive exclamation marks are present,
  and the agent's extractor returns the empty list; on "Not now" none of the claimed
  rules fires, and the agent's extractor returns an indicator.
\<close>

theorem urgency_indicators_counterexample:
  "extract_urgency_indicators (lower ''Deadline!!'') = []
   \<and> identify_urgency_indicators ''Deadline!!'' = [''deadline'', ''multiple exclamation marks'']
   \<and> str_in ''deadline'' (lower ''Deadline!!'')
   \<and> str_in ''!!'' ''Deadline!!''
   \<and> extract_urgency_indicators (lower ''Not now'') = [''immediate timeframe'']
   \<and> identify_urgency_indicators ''Not now'' = []"
  by code_simp

section \<open>Properties of template filling\<close>

text \<open>
  The scan of \<open>findall_placeholders\<close> agrees with the backtracking matcher on the
  pattern \<open>\{[^}]+\}\<close>: at every position both match in the same cases and leave
  the same rest of the text.
\<close>

lemma rep_not_close:
  "rmatch [Rep (NotChar (CHR ''}'')) lo None, Lit ''}''] s =
     (if lo \<le> length (takeWhile not_close s) \<and> dropWhile not_close s \<noteq> []
      then Some (tl (dropWhile not_close s)) else None)"
proof (induction s arbitrary: lo)
  case Nil
  show ?case by simp
next
  case (Cons x xs)
  show ?case
  proof (cases "x = CHR ''}''")
    case True
    then show ?thesis by (simp add: not_close_def [abs_def])
  next
    case False
    then show ?thesis
      using Cons.IH [of "lo - 1"] by (auto simp: not_close_def [abs_def])
  qed
qed

lemma placeholder_pattern_match:
  "rmatch [Seq [Lit ''{'', Rep (NotChar (CHR ''}'')) 1 None, Lit ''}'']] (c # cs) =
     (if c = CHR ''{'' \<and> takeWhile not_close cs \<noteq> [] \<and> dropWhile not_close cs \<noteq> []
      then Some (tl (dropWhile not_close cs)) else None)"
  using rep_not_close [of 1 cs]
  by (cases "takeWhile not_close cs") (auto simp: Suc_le_eq)

















declare subst.simps(2) [simp del] findall_placeholders.simps(2) [simp del]













end
